theory Spec2Isabelle
  imports Main
begin

section \<open>falcon/util.py: the interpreter the model stands for\<close>

text \<open>
  The module is a handful of thin functions over the Python standard library. The
  embedding follows \<^verbatim>\<open>src/falcon/util.py\<close> line by line and writes out the library
  calls it makes (\<^verbatim>\<open>str\<close>, \<^verbatim>\<open>str.join\<close>) as CPython 3 defines them. The flag
  \<^verbatim>\<open>six.PY3\<close> is true in this model, so the two statements guarded by
  \<^verbatim>\<open>not six.PY3\<close> are not executed.
\<close>

section \<open>Values of a query mapping\<close>

text \<open>
  \<^verbatim>\<open>to_query_str\<close> documents its argument as a dict "of simple key-value types, where
  key is a string and value is a string or something that can be converted into a
  string", or a list of such things. A scalar is a boolean, an integer, a string,
  \<^verbatim>\<open>None\<close>, or an opaque object, which is represented by the text its \<^verbatim>\<open>__str__\<close>
  returns. A value is a scalar or a \<^verbatim>\<open>list\<close> of scalars.
\<close>

datatype scalar = SBool bool | SInt int | SStr string | SNone | SObj string

datatype pyval = Scalar scalar | PList "scalar list"

text \<open>The items of the dict in iteration order; the keys are strings.\<close>

type_synonym params = "(string \<times> pyval) list"

subsection \<open>\<^verbatim>\<open>str\<close> of a scalar\<close>

definition digit_char :: "nat \<Rightarrow> char" where
  "digit_char d = ''0123456789'' ! d"

definition is_digit :: "char \<Rightarrow> bool" where
  "is_digit c \<longleftrightarrow> c \<in> set ''0123456789''"

definition is_int_char :: "char \<Rightarrow> bool" where
  "is_int_char c \<longleftrightarrow> is_digit c \<or> c = CHR ''-''"

text \<open>Decimal digits of a natural number, most significant first, no leading zero.\<close>

fun str_nat :: "nat \<Rightarrow> string" where
  "str_nat n = (if n < 10 then [digit_char n] else str_nat (n div 10) @ [digit_char (n mod 10)])"

declare str_nat.simps [simp del]

definition str_int :: "int \<Rightarrow> string" where
  "str_int i = (if i < 0 then CHR ''-'' # str_nat (nat (- i)) else str_nat (nat i))"

fun py_str :: "scalar \<Rightarrow> string" where
  "py_str (SBool True) = ''True''"
| "py_str (SBool False) = ''False''"
| "py_str (SInt i) = str_int i"
| "py_str (SStr s) = s"
| "py_str SNone = ''None''"
| "py_str (SObj s) = s"

text \<open>\<^verbatim>\<open>sep.join(xs)\<close>.\<close>

fun join :: "string \<Rightarrow> string list \<Rightarrow> string" where
  "join sep [] = []"
| "join sep [x] = x"
| "join sep (x # y # ys) = x @ sep @ join sep (y # ys)"

section \<open>\<^verbatim>\<open>to_query_str\<close>\<close>

text \<open>
  The value transform inlined in the loop (lines 129 to 138): \<^verbatim>\<open>v is True\<close>,
  \<^verbatim>\<open>v is False\<close>, \<^verbatim>\<open>isinstance(v, list)\<close>, and \<^verbatim>\<open>str(v)\<close> otherwise, in this order.
  The tests \<^verbatim>\<open>is True\<close> and \<^verbatim>\<open>is False\<close> compare identities: only the two boolean
  singletons pass them.
\<close>

fun value_transform :: "pyval \<Rightarrow> string" where
  "value_transform v =
     (if v = Scalar (SBool True) then ''true''
      else if v = Scalar (SBool False) then ''false''
      else case v of
        PList xs \<Rightarrow> join '','' (map py_str xs)
      | Scalar x \<Rightarrow> py_str x)"

text \<open>The \<^verbatim>\<open>for\<close> loop (lines 128 to 140), with \<^verbatim>\<open>query_str\<close> as accumulator.\<close>

fun query_loop :: "string \<Rightarrow> params \<Rightarrow> string" where
  "query_loop query_str [] = query_str"
| "query_loop query_str ((k, v) # ps) =
     query_loop (query_str @ k @ ''='' @ value_transform v @ ''&'') ps"

text \<open>
  \<^verbatim>\<open>if not params: return ''\<close>, then the loop from \<^verbatim>\<open>'?'\<close>, then
  \<^verbatim>\<open>query_str[:-1]\<close>, which drops the last character.
\<close>

definition to_query_str :: "params \<Rightarrow> string" where
  "to_query_str params =
     (if params = [] then '''' else butlast (query_loop ''?'' params))"

text \<open>One rendered pair, \<^verbatim>\<open>k + '=' + v\<close> after the transform.\<close>

definition pair_str :: "string \<times> pyval \<Rightarrow> string" where
  "pair_str p = fst p @ ''='' @ value_transform (snd p)"

section \<open>Text and bytes\<close>

text \<open>
  The percent functions look at code points and at UTF-8 bytes, so here a Python 3
  \<^verbatim>\<open>str\<close> is the list of its code points and a \<^verbatim>\<open>bytes\<close> object the list of its
  byte values. \<open>ascii\<close> turns a literal into the text with the same characters.
\<close>

type_synonym pystr = "nat list"

type_synonym bytes = "nat list"

definition ascii :: "string \<Rightarrow> pystr" where
  "ascii s = map of_char s"

datatype exn = UnicodeEncodeError | UnicodeDecodeError | ValueError | WarningRaised

text \<open>Sequencing of calls that may raise.\<close>

fun bind_res :: "exn + 'a \<Rightarrow> ('a \<Rightarrow> exn + 'b) \<Rightarrow> exn + 'b" where
  "bind_res (Inl e) f = Inl e"
| "bind_res (Inr x) f = f x"

subsection \<open>\<^verbatim>\<open>str.encode('utf-8', 'strict')\<close>\<close>

definition is_surrogate :: "nat \<Rightarrow> bool" where
  "is_surrogate c \<longleftrightarrow> 0xD800 \<le> c \<and> c \<le> 0xDFFF"

definition utf8_char :: "nat \<Rightarrow> bytes" where
  "utf8_char c =
     (if c < 0x80 then [c]
      else if c < 0x800 then [0xC0 + c div 0x40, 0x80 + c mod 0x40]
      else if c < 0x10000 then
        [0xE0 + c div 0x1000, 0x80 + c div 0x40 mod 0x40, 0x80 + c mod 0x40]
      else
        [0xF0 + c div 0x40000, 0x80 + c div 0x1000 mod 0x40,
         0x80 + c div 0x40 mod 0x40, 0x80 + c mod 0x40])"

text \<open>The strict error handler raises on a lone surrogate.\<close>

fun encode_utf8 :: "pystr \<Rightarrow> exn + bytes" where
  "encode_utf8 [] = Inr []"
| "encode_utf8 (c # cs) =
     (if is_surrogate c then Inl UnicodeEncodeError
      else bind_res (encode_utf8 cs) (\<lambda>bs. Inr (utf8_char c @ bs)))"

subsection \<open>\<^verbatim>\<open>bytes.decode('utf-8', errors)\<close>\<close>

datatype errors = Strict | Replace

definition is_continuation :: "nat \<Rightarrow> bool" where
  "is_continuation b \<longleftrightarrow> 0x80 \<le> b \<and> b < 0xC0"

text \<open>
  What the decoder does with a malformed sequence: the strict handler raises, the
  replace handler emits U+FFFD and decoding resumes after the malformed bytes; \<open>k\<close> is
  the decoding of the bytes after them.
\<close>

fun on_error :: "errors \<Rightarrow> exn + pystr \<Rightarrow> exn + pystr" where
  "on_error Strict k = Inl UnicodeDecodeError"
| "on_error Replace k = bind_res k (\<lambda>t. Inr (0xFFFD # t))"

definition emit :: "nat \<Rightarrow> exn + pystr \<Rightarrow> exn + pystr" where
  "emit c k = bind_res k (\<lambda>t. Inr (c # t))"

text \<open>
  CPython's decoder (\<^verbatim>\<open>utf8_decode\<close> and its caller \<^verbatim>\<open>unicode_decode_utf8\<close>). An
  invalid start byte and an invalid first continuation byte are an error of one byte,
  an invalid second continuation byte an error of two bytes, an invalid third one an
  error of three bytes; a sequence cut short by the end of the data is one error that
  takes all the bytes left.
\<close>

fun decode_utf8 :: "errors \<Rightarrow> bytes \<Rightarrow> exn + pystr" where
  "decode_utf8 e [] = Inr []"
| "decode_utf8 e (b # rest) =
     (if b < 0x80 then emit b (decode_utf8 e rest)
      else if b < 0xC2 then on_error e (decode_utf8 e rest)
      else if b < 0xE0 then
        (case rest of
           [] \<Rightarrow> on_error e (Inr [])
         | c2 # r2 \<Rightarrow>
             if \<not> is_continuation c2 then on_error e (decode_utf8 e rest)
             else emit ((b - 0xC0) * 0x40 + (c2 - 0x80)) (decode_utf8 e r2))
      else if b < 0xF0 then
        (case rest of
           [] \<Rightarrow> on_error e (Inr [])
         | c2 # r2 \<Rightarrow>
             if \<not> is_continuation c2 \<or> (if c2 < 0xA0 then b = 0xE0 else b = 0xED)
             then on_error e (decode_utf8 e rest)
             else (case r2 of
                [] \<Rightarrow> on_error e (Inr [])
              | c3 # r3 \<Rightarrow>
                  if \<not> is_continuation c3 then on_error e (decode_utf8 e r2)
                  else emit ((b - 0xE0) * 0x1000 + (c2 - 0x80) * 0x40 + (c3 - 0x80))
                         (decode_utf8 e r3)))
      else if b < 0xF5 then
        (case rest of
           [] \<Rightarrow> on_error e (Inr [])
         | c2 # r2 \<Rightarrow>
             if \<not> is_continuation c2 \<or> (if c2 < 0x90 then b = 0xF0 else b = 0xF4)
             then on_error e (decode_utf8 e rest)
             else (case r2 of
                [] \<Rightarrow> on_error e (Inr [])
              | c3 # r3 \<Rightarrow>
                  if \<not> is_continuation c3 then on_error e (decode_utf8 e r2)
                  else (case r3 of
                     [] \<Rightarrow> on_error e (Inr [])
                   | c4 # r4 \<Rightarrow>
                       if \<not> is_continuation c4 then on_error e (decode_utf8 e r3)
                       else emit ((b - 0xF0) * 0x40000 + (c2 - 0x80) * 0x1000
                                   + (c3 - 0x80) * 0x40 + (c4 - 0x80))
                              (decode_utf8 e r4))))
      else on_error e (decode_utf8 e rest))"

section \<open>\<^verbatim>\<open>urllib.parse.quote\<close> and \<^verbatim>\<open>percent_escape\<close>\<close>

text \<open>\<^verbatim>\<open>'{:02X}'.format(b)\<close>: upper-case hexadecimal, zero-padded to two digits.\<close>

definition hex_digit :: "nat \<Rightarrow> char" where
  "hex_digit d = ''0123456789ABCDEF'' ! d"

fun hex_nat :: "nat \<Rightarrow> string" where
  "hex_nat n = (if n < 16 then [hex_digit n] else hex_nat (n div 16) @ [hex_digit (n mod 16)])"

declare hex_nat.simps [simp del]

definition fmt_02X :: "nat \<Rightarrow> string" where
  "fmt_02X n = (let h = hex_nat n in replicate (2 - length h) CHR ''0'' @ h)"

text \<open>\<^verbatim>\<open>_ALWAYS_SAFE\<close>: the unreserved characters, which \<^verbatim>\<open>quote\<close> never encodes.\<close>

definition always_safe :: "bytes" where
  "always_safe =
     ascii ''ABCDEFGHIJKLMNOPQRSTUVWXYZabcdefghijklmnopqrstuvwxyz0123456789_.-~''"

text \<open>\<^verbatim>\<open>Quoter.__missing__\<close>: the quoted form of one byte.\<close>

definition quoter :: "bytes \<Rightarrow> nat \<Rightarrow> pystr" where
  "quoter safe b =
     (if b \<in> set (always_safe @ safe) then [b] else ascii (CHR ''%'' # fmt_02X b))"

text \<open>\<^verbatim>\<open>bs.rstrip(chars)\<close>.\<close>

definition rstrip :: "bytes \<Rightarrow> bytes \<Rightarrow> bytes" where
  "rstrip bs chars = rev (dropWhile (\<lambda>b. b \<in> set chars) (rev bs))"

text \<open>
  \<^verbatim>\<open>quote_from_bytes(bs, safe)\<close>: the empty input returns at once; \<open>safe\<close> loses its
  non-ASCII characters; a string of safe bytes only is returned decoded; otherwise the
  quoted bytes are joined.
\<close>

definition quote_from_bytes :: "bytes \<Rightarrow> pystr \<Rightarrow> exn + pystr" where
  "quote_from_bytes bs safe =
     (if bs = [] then Inr []
      else let safe' = filter (\<lambda>c. c < 128) safe in
        if rstrip bs (always_safe @ safe') = [] then decode_utf8 Strict bs
        else Inr (concat (map (quoter safe') bs)))"

text \<open>
  \<^verbatim>\<open>quote(string, safe)\<close> for a \<^verbatim>\<open>str\<close>: the empty string is returned as it is, any
  other is encoded with \<^verbatim>\<open>encoding='utf-8'\<close>, \<^verbatim>\<open>errors='strict'\<close>.
\<close>

definition quote :: "pystr \<Rightarrow> pystr \<Rightarrow> exn + pystr" where
  "quote string safe =
     (if string = [] then Inr string
      else bind_res (encode_utf8 string) (\<lambda>bs. quote_from_bytes bs safe))"

text \<open>
  Line 163. The statement above it runs under \<^verbatim>\<open>not six.PY3\<close> only.
\<close>

definition percent_escape :: "pystr \<Rightarrow> exn + pystr" where
  "percent_escape url = quote url (ascii ''/:,=?&-_'')"

text \<open>
  The claim's wording, character by character: a character of the safe set or an
  unreserved one stays, any other becomes \<^verbatim>\<open>%XX\<close> for each of its UTF-8 bytes.
\<close>

definition stays_unescaped :: "nat \<Rightarrow> bool" where
  "stays_unescaped c \<longleftrightarrow> c \<in> set (ascii ''/:,=?&-_'') \<or> c \<in> set always_safe"

definition escape_char :: "nat \<Rightarrow> pystr" where
  "escape_char c =
     (if stays_unescaped c then [c]
      else concat (map (\<lambda>b. ascii (CHR ''%'' # fmt_02X b)) (utf8_char c)))"

section \<open>\<^verbatim>\<open>urllib.parse.unquote_plus\<close> and \<^verbatim>\<open>percent_unescape\<close>\<close>

text \<open>\<^verbatim>\<open>s.split(sep)\<close> for a separator of one character.\<close>

fun split_on :: "nat \<Rightarrow> nat list \<Rightarrow> nat list list" where
  "split_on sep [] = [[]]"
| "split_on sep (c # cs) =
     (if c = sep then [] # split_on sep cs
      else case split_on sep cs of
        [] \<Rightarrow> [[c]]
      | p # ps \<Rightarrow> (c # p) # ps)"

text \<open>\<^verbatim>\<open>_hextobyte\<close>: defined on the pairs of characters of \<^verbatim>\<open>0123456789ABCDEFabcdef\<close>.\<close>

definition hex_value :: "nat \<Rightarrow> nat option" where
  "hex_value c =
     (if of_char CHR ''0'' \<le> c \<and> c \<le> of_char CHR ''9'' then Some (c - of_char CHR ''0'')
      else if of_char CHR ''A'' \<le> c \<and> c \<le> of_char CHR ''F'' then Some (c - of_char CHR ''A'' + 10)
      else if of_char CHR ''a'' \<le> c \<and> c \<le> of_char CHR ''f'' then Some (c - of_char CHR ''a'' + 10)
      else None)"

fun hextobyte :: "bytes \<Rightarrow> nat option" where
  "hextobyte [a, b] =
     (case (hex_value a, hex_value b) of
        (Some x, Some y) \<Rightarrow> Some (16 * x + y)
      | _ \<Rightarrow> None)"
| "hextobyte _ = None"

text \<open>
  The body of the loop of \<^verbatim>\<open>_unquote_impl\<close>: \<^verbatim>\<open>_hextobyte[item[:2]]\<close> and
  \<^verbatim>\<open>item[2:]\<close>, or on \<^verbatim>\<open>KeyError\<close> the \<^verbatim>\<open>%\<close> and the item unchanged.
\<close>

definition unquote_item :: "bytes \<Rightarrow> bytes" where
  "unquote_item item =
     (case hextobyte (take 2 item) of
        Some b \<Rightarrow> b # drop 2 item
      | None \<Rightarrow> of_char CHR ''%'' # item)"

text \<open>\<^verbatim>\<open>_unquote_impl(string)\<close> for a \<^verbatim>\<open>str\<close>.\<close>

definition unquote_impl :: "pystr \<Rightarrow> exn + bytes" where
  "unquote_impl string =
     (if string = [] then Inr []
      else bind_res (encode_utf8 string) (\<lambda>bs.
        let bits = split_on (of_char CHR ''%'') bs in
        if length bits = 1 then Inr bs
        else Inr (hd bits @ concat (map unquote_item (tl bits)))))"

text \<open>
  The matches of \<^verbatim>\<open>_asciire = re.compile('([\x00-\x7f]+)')\<close> found by \<^verbatim>\<open>finditer\<close>, and
  the text between them: the maximal runs of ASCII and of non-ASCII characters, in
  order, each tagged with whether it is ASCII.
\<close>

fun ascii_runs :: "pystr \<Rightarrow> (bool \<times> pystr) list" where
  "ascii_runs [] = []"
| "ascii_runs (c # cs) =
     (case ascii_runs cs of
        [] \<Rightarrow> [(c < 128, [c])]
      | (a, r) # rs \<Rightarrow>
          if a = (c < 128) then (a, c # r) # rs else (c < 128, [c]) # (a, r) # rs)"

text \<open>
  \<^verbatim>\<open>_generate_unquoted_parts\<close>, joined: a non-ASCII run is yielded as it is, an ASCII
  run is unquoted to bytes and decoded.
\<close>

fun unquoted_parts :: "errors \<Rightarrow> (bool \<times> pystr) list \<Rightarrow> exn + pystr" where
  "unquoted_parts errors [] = Inr []"
| "unquoted_parts errors ((a, r) # rs) =
     bind_res (if a then bind_res (unquote_impl r) (decode_utf8 errors) else Inr r) (\<lambda>part.
     bind_res (unquoted_parts errors rs) (\<lambda>parts. Inr (part @ parts)))"

text \<open>\<^verbatim>\<open>unquote(string, encoding='utf-8', errors='replace')\<close> for a \<^verbatim>\<open>str\<close>.\<close>

definition unquote :: "pystr \<Rightarrow> errors \<Rightarrow> exn + pystr" where
  "unquote string errors =
     (if of_char CHR ''%'' \<notin> set string then Inr string
      else unquoted_parts errors (ascii_runs string))"

text \<open>\<^verbatim>\<open>string.replace('+', ' ')\<close>.\<close>

definition replace_plus :: "pystr \<Rightarrow> pystr" where
  "replace_plus s = map (\<lambda>c. if c = of_char CHR ''+'' then of_char CHR '' '' else c) s"

text \<open>\<^verbatim>\<open>unquote_plus(string)\<close> with its defaults, \<^verbatim>\<open>'utf-8'\<close> and \<^verbatim>\<open>'replace'\<close>.\<close>

definition unquote_plus :: "pystr \<Rightarrow> exn + pystr" where
  "unquote_plus string = unquote (replace_plus string) Replace"

text \<open>Lines 176 and 178: under \<^verbatim>\<open>six.PY3\<close> the result of \<^verbatim>\<open>unquote_plus\<close> is returned.\<close>

definition percent_unescape :: "pystr \<Rightarrow> exn + pystr" where
  "percent_unescape nstr = bind_res (unquote_plus nstr) (\<lambda>s. Inr s)"


definition is_hex_upper :: "char \<Rightarrow> bool" where
  "is_hex_upper c \<longleftrightarrow> c \<in> set ''0123456789ABCDEF''"

section \<open>The \<^verbatim>\<open>warnings\<close> module and \<^verbatim>\<open>deprecated\<close>\<close>

text \<open>
  The warning categories: the built-in ones and line 43,
  \<^verbatim>\<open>class DeprecatedWarning(UserWarning)\<close>.
\<close>

datatype category =
    Warning | UserWarning | DeprecationWarning | PendingDeprecationWarning
  | SyntaxWarning | RuntimeWarning | FutureWarning | ImportWarning | UnicodeWarning
  | BytesWarning | ResourceWarning | DeprecatedWarning

text \<open>\<^verbatim>\<open>issubclass\<close>: every category derives from \<^verbatim>\<open>Warning\<close>, and the module's own from \<^verbatim>\<open>UserWarning\<close>.\<close>

definition issubclass :: "category \<Rightarrow> category \<Rightarrow> bool" where
  "issubclass c d \<longleftrightarrow> c = d \<or> d = Warning \<or> (c = DeprecatedWarning \<and> d = UserWarning)"

datatype action = Error | Ignore | Always | Default | Module | Once

text \<open>
  An entry of \<^verbatim>\<open>warnings.filters\<close>: the action, the compiled regular expressions for
  the message and the module (as the predicates they decide; \<^verbatim>\<open>None\<close> is the predicate
  that holds of every string), the category and the line number (0 for any line).
\<close>

record wfilter =
  f_action :: action
  f_message :: "string \<Rightarrow> bool"
  f_category :: category
  f_module :: "string \<Rightarrow> bool"
  f_lineno :: nat

record warning =
  w_message :: string
  w_category :: category
  w_filename :: string
  w_lineno :: nat

text \<open>
  The process-wide state of the module: the filters, the default action, the registry
  of the \<^verbatim>\<open>once\<close> action, and the warnings handed to \<^verbatim>\<open>showwarning\<close>, oldest first.
\<close>

record wstate =
  filters :: "wfilter list"
  defaultaction :: action
  onceregistry :: "(string \<times> category) list"
  shown :: "warning list"

definition lower_char :: "char \<Rightarrow> char" where
  "lower_char c =
     (case map_of (zip ''ABCDEFGHIJKLMNOPQRSTUVWXYZ'' ''abcdefghijklmnopqrstuvwxyz'') c of
        Some l \<Rightarrow> l
      | None \<Rightarrow> c)"

text \<open>
  \<^verbatim>\<open>module = filename or "<unknown>"\<close>, without a final \<^verbatim>\<open>.py\<close> in any letter case.
\<close>

definition module_of :: "string \<Rightarrow> string" where
  "module_of filename =
     (let module = (if filename = [] then ''<unknown>'' else filename) in
      if map lower_char (drop (length module - 3) module) = ''.py''
      then take (length module - 3) module else module)"

text \<open>The search of the filters: the first entry that matches decides, else the default.\<close>

fun search_filters :: "wfilter list \<Rightarrow> action \<Rightarrow> string \<Rightarrow> category \<Rightarrow> string \<Rightarrow> nat \<Rightarrow> action" where
  "search_filters [] dflt text' cat module lineno = dflt"
| "search_filters (item # items) dflt text' cat module lineno =
     (if f_message item text' \<and> issubclass cat (f_category item)
         \<and> f_module item module \<and> (f_lineno item = 0 \<or> lineno = f_lineno item)
      then f_action item
      else search_filters items dflt text' cat module lineno)"

text \<open>
  \<^verbatim>\<open>warnings.warn_explicit(message, category, filename, lineno)\<close> with a string
  message and no registry argument: the registry is a fresh dict, so the lookups in it
  find nothing and the writes to it are lost. \<^verbatim>\<open>ignore\<close> returns, \<^verbatim>\<open>error\<close> raises the
  warning, \<^verbatim>\<open>once\<close> returns when the message and category are in the once registry and
  else enters them, \<^verbatim>\<open>module\<close> returns when its key for line 0 is the key just written,
  and whatever is left is handed to \<^verbatim>\<open>showwarning\<close>.
\<close>

definition warn_explicit :: "string \<Rightarrow> category \<Rightarrow> string \<Rightarrow> nat \<Rightarrow> wstate \<Rightarrow> exn + wstate" where
  "warn_explicit message cat filename lineno st =
     (let act = search_filters (filters st) (defaultaction st) message cat
                  (module_of filename) lineno;
          w = \<lparr>w_message = message, w_category = cat, w_filename = filename,
               w_lineno = lineno\<rparr>
      in case act of
           Ignore \<Rightarrow> Inr st
         | Error \<Rightarrow> Inl WarningRaised
         | Once \<Rightarrow>
             if (message, cat) \<in> set (onceregistry st) then Inr st
             else Inr (st\<lparr>onceregistry := (message, cat) # onceregistry st,
                          shown := shown st @ [w]\<rparr>)
         | Always \<Rightarrow> Inr (st\<lparr>shown := shown st @ [w]\<rparr>)
         | Module \<Rightarrow> if lineno = 0 then Inr st else Inr (st\<lparr>shown := shown st @ [w]\<rparr>)
         | Default \<Rightarrow> Inr (st\<lparr>shown := shown st @ [w]\<rparr>))"

text \<open>
  A Python function as \<^verbatim>\<open>deprecated\<close> sees it: its \<^verbatim>\<open>__name__\<close>, and what a call does,
  which is to return a value or raise, and to change the state.
\<close>

record ('a, 'b) pyfunc =
  func_name :: string
  func_call :: "'a \<Rightarrow> wstate \<Rightarrow> (exn + 'b) \<times> wstate"

text \<open>
  Lines 47 to 76. \<^verbatim>\<open>deprecated(instructions)(func)\<close> is the wrapper; a call of the
  wrapper comes from a frame, \<^verbatim>\<open>inspect.currentframe().f_back\<close>, of which the file and the
  line are read. The message is formatted, \<^verbatim>\<open>warn_explicit\<close> is called, and if it
  returns, \<^verbatim>\<open>func\<close> is called with the same arguments and its result returned.
\<close>

definition deprecated_message :: "string \<Rightarrow> string \<Rightarrow> string" where
  "deprecated_message name instructions =
     ''Call to deprecated function '' @ name @ ''(...). '' @ instructions"

definition deprecated ::
  "string \<Rightarrow> ('a, 'b) pyfunc \<Rightarrow> string \<times> nat \<Rightarrow> 'a \<Rightarrow> wstate \<Rightarrow> (exn + 'b) \<times> wstate" where
  "deprecated instructions func frame args st =
     (let message = deprecated_message (func_name func) instructions in
      case warn_explicit message DeprecatedWarning (fst frame) (snd frame) st of
        Inl e \<Rightarrow> (Inl e, st)
      | Inr st' \<Rightarrow> func_call func args st')"

text \<open>
  The filters CPython installs at startup (release build, no \<^verbatim>\<open>-W\<close> option): show
  \<^verbatim>\<open>DeprecationWarning\<close> raised in \<^verbatim>\<open>__main__\<close>, ignore it elsewhere, and ignore
  \<^verbatim>\<open>PendingDeprecationWarning\<close>, \<^verbatim>\<open>ImportWarning\<close> and \<^verbatim>\<open>ResourceWarning\<close>.
\<close>

definition default_filters :: "wfilter list" where
  "default_filters =
     [\<lparr>f_action = Default, f_message = (\<lambda>_. True), f_category = DeprecationWarning,
        f_module = (\<lambda>m. m = ''__main__''), f_lineno = 0\<rparr>,
      \<lparr>f_action = Ignore, f_message = (\<lambda>_. True), f_category = DeprecationWarning,
        f_module = (\<lambda>_. True), f_lineno = 0\<rparr>,
      \<lparr>f_action = Ignore, f_message = (\<lambda>_. True), f_category = PendingDeprecationWarning,
        f_module = (\<lambda>_. True), f_lineno = 0\<rparr>,
      \<lparr>f_action = Ignore, f_message = (\<lambda>_. True), f_category = ImportWarning,
        f_module = (\<lambda>_. True), f_lineno = 0\<rparr>,
      \<lparr>f_action = Ignore, f_message = (\<lambda>_. True), f_category = ResourceWarning,
        f_module = (\<lambda>_. True), f_lineno = 0\<rparr>]"

definition default_state :: "wstate" where
  "default_state =
     \<lparr>filters = default_filters, defaultaction = Default, onceregistry = [], shown = []\<rparr>"

text \<open>A filter state that lets a warning of the module's category through.\<close>

definition lets_through :: "wstate \<Rightarrow> string \<Rightarrow> string \<Rightarrow> nat \<Rightarrow> bool" where
  "lets_through st message filename lineno =
     (search_filters (filters st) (defaultaction st) message DeprecatedWarning
        (module_of filename) lineno \<in> {Always, Default})"

text \<open>A function that computes its result from its arguments and touches no state.\<close>

definition pure_func :: "string \<Rightarrow> ('a \<Rightarrow> 'b) \<Rightarrow> ('a, 'b) pyfunc" where
  "pure_func name g = \<lparr>func_name = name, func_call = (\<lambda>args st. (Inr (g args), st))\<rparr>"

section \<open>Dates: \<^verbatim>\<open>datetime\<close>, \<^verbatim>\<open>strftime\<close> and \<^verbatim>\<open>strptime\<close>\<close>

text \<open>
  A naive \<^verbatim>\<open>datetime\<close> ("assumed to be UTC", as the docstring of \<^verbatim>\<open>dt_to_http\<close> says). The
  library calls are modelled for the C locale (English names) and a process whose local
  time zone is UTC, and a text is a \<open>string\<close>: the characters below U+0100.
\<close>

record datetime =
  year :: nat
  month :: nat
  day :: nat
  hour :: nat
  minute :: nat
  second :: nat
  microsecond :: nat

subsection \<open>The calendar of the \<^verbatim>\<open>datetime\<close> module\<close>

definition is_leap :: "nat \<Rightarrow> bool" where
  "is_leap y \<longleftrightarrow> y mod 4 = 0 \<and> (y mod 100 \<noteq> 0 \<or> y mod 400 = 0)"


definition DAYS_BEFORE_MONTH :: "nat list" where
  "DAYS_BEFORE_MONTH = [0, 0, 31, 59, 90, 120, 151, 181, 212, 243, 273, 304, 334]"


definition days_before_year :: "nat \<Rightarrow> nat" where
  "days_before_year y' = (let y = y' - 1 in y * 365 + y div 4 - y div 100 + y div 400)"

definition days_before_month :: "nat \<Rightarrow> nat \<Rightarrow> nat" where
  "days_before_month y m = DAYS_BEFORE_MONTH ! m + (if m > 2 \<and> is_leap y then 1 else 0)"

definition ymd2ord :: "nat \<Rightarrow> nat \<Rightarrow> nat \<Rightarrow> nat" where
  "ymd2ord y m d = days_before_year y + days_before_month y m + d"

text \<open>\<^verbatim>\<open>weekday()\<close>: Monday is 0.\<close>

definition weekday :: "datetime \<Rightarrow> nat" where
  "weekday dt = (ymd2ord (year dt) (month dt) (day dt) + 6) mod 7"




subsection \<open>\<^verbatim>\<open>strftime\<close> and \<^verbatim>\<open>dt_to_http\<close>\<close>

definition day_abbr :: "string list" where
  "day_abbr = [''Mon'', ''Tue'', ''Wed'', ''Thu'', ''Fri'', ''Sat'', ''Sun'']"

definition month_abbr :: "string list" where
  "month_abbr = ['''', ''Jan'', ''Feb'', ''Mar'', ''Apr'', ''May'', ''Jun'', ''Jul'', ''Aug'',
                 ''Sep'', ''Oct'', ''Nov'', ''Dec'']"

text \<open>A number in decimal, zero-padded on the left to a width.\<close>

definition zero_pad :: "nat \<Rightarrow> nat \<Rightarrow> string" where
  "zero_pad width n = (let s = str_nat n in replicate (width - length s) CHR ''0'' @ s)"

text \<open>
  The directives of the format of line 91, as the C library's \<^verbatim>\<open>strftime\<close> renders them
  for CPython 3.11 on glibc: the day, hour, minute and second are padded with zeros to
  two digits, the year \<^verbatim>\<open>%Y\<close> is printed as the decimal number it is, without padding. A
  directive the module does not use is outside the model and is left as it stands.
\<close>

definition strftime_directive :: "char \<Rightarrow> datetime \<Rightarrow> string" where
  "strftime_directive c dt =
     (if c = CHR ''a'' then day_abbr ! weekday dt
      else if c = CHR ''d'' then zero_pad 2 (day dt)
      else if c = CHR ''b'' then month_abbr ! month dt
      else if c = CHR ''Y'' then str_nat (year dt)
      else if c = CHR ''H'' then zero_pad 2 (hour dt)
      else if c = CHR ''M'' then zero_pad 2 (minute dt)
      else if c = CHR ''S'' then zero_pad 2 (second dt)
      else [CHR ''%'', c])"

fun strftime :: "string \<Rightarrow> datetime \<Rightarrow> string" where
  "strftime [] dt = []"
| "strftime [c] dt = [c]"
| "strftime (c # d # fmt) dt =
     (if c = CHR ''%'' then strftime_directive d dt @ strftime fmt dt
      else c # strftime (d # fmt) dt)"

text \<open>Line 91.\<close>

definition dt_to_http :: "datetime \<Rightarrow> string" where
  "dt_to_http dt = strftime ''%a, %d %b %Y %H:%M:%S GMT'' dt"

subsection \<open>The regular expressions of \<^verbatim>\<open>_strptime\<close>\<close>

text \<open>
  The constructs \<^verbatim>\<open>TimeRE\<close> uses for this format: a literal character, \<^verbatim>\<open>\d\<close>, a range
  \<^verbatim>\<open>[a-b]\<close>, \<^verbatim>\<open>\s+\<close>, sequence, alternation, a named group, and the empty pattern. The
  pattern is compiled with \<^verbatim>\<open>IGNORECASE\<close>.
\<close>

datatype regex =
    Lit char | Digit | Range char char | SpacePlus
  | Seq regex regex | Alt regex regex | Group char regex | Eps

text \<open>\<^verbatim>\<open>\s\<close> on a \<^verbatim>\<open>str\<close>: the Unicode white space below U+0100.\<close>

definition is_space :: "char \<Rightarrow> bool" where
  "is_space c \<longleftrightarrow> (of_char c :: nat) \<in> {9, 10, 11, 12, 13, 28, 29, 30, 31, 32, 133, 160}"

definition in_range :: "char \<Rightarrow> char \<Rightarrow> char \<Rightarrow> bool" where
  "in_range a b c \<longleftrightarrow> (of_char a :: nat) \<le> of_char c \<and> (of_char c :: nat) \<le> of_char b"



text \<open>The strings a pattern matches in full, without regard to order.\<close>

fun lang :: "regex \<Rightarrow> string set" where
  "lang (Lit c) = {[x] | x. lower_char x = lower_char c}"
| "lang Digit = {[x] | x. is_digit x}"
| "lang (Range a b) = {[x] | x. in_range a b x}"
| "lang SpacePlus = {w. w \<noteq> [] \<and> list_all is_space w}"
| "lang (Seq r1 r2) = {u @ v | u v. u \<in> lang r1 \<and> v \<in> lang r2}"
| "lang (Alt r1 r2) = lang r1 \<union> lang r2"
| "lang (Group name r) = lang r"
| "lang Eps = {[]}"










subsection \<open>\<^verbatim>\<open>_strptime\<close>, \<^verbatim>\<open>datetime.strptime\<close> and \<^verbatim>\<open>http_date_to_dt\<close>\<close>










text \<open>
  Percent-decoding in the words of the specification, scanning from left to right: a
  \<^verbatim>\<open>%\<close> followed by two hexadecimal digits becomes the byte they denote and the scan goes
  on after them; any other character stays.
\<close>

fun pct_decode :: "nat list \<Rightarrow> nat list" where
  "pct_decode (c # h1 # h2 # rest) =
     (if c = of_char CHR ''%'' then
        (case hextobyte [h1, h2] of
           Some b \<Rightarrow> b # pct_decode rest
         | None \<Rightarrow> c # pct_decode (h1 # h2 # rest))
      else c # pct_decode (h1 # h2 # rest))"
| "pct_decode [c, d] = c # pct_decode [d]"
| "pct_decode cs = cs"

text \<open>The text that decoding with \<^verbatim>\<open>errors='replace'\<close> returns.\<close>

definition decode_replace :: "bytes \<Rightarrow> pystr" where
  "decode_replace bs = (case decode_utf8 Replace bs of Inr t \<Rightarrow> t | Inl e \<Rightarrow> [])"

text \<open>
  What becomes of one run of the input: an ASCII run is percent-decoded and the bytes
  are decoded as UTF-8 with replacement, a run of other characters stays.
\<close>

definition unescape_run :: "bool \<times> pystr \<Rightarrow> pystr" where
  "unescape_run run = (if fst run then decode_replace (pct_decode (snd run)) else snd run)"

section \<open>Properties of \<^verbatim>\<open>to_query_str\<close>\<close>

lemma query_loop_append:
  "query_loop q ps = q @ concat (map (\<lambda>p. pair_str p @ ''&'') ps)"
  by (induction ps arbitrary: q) (auto simp: pair_str_def)

lemma concat_amp_join:
  "xs \<noteq> [] \<Longrightarrow> concat (map (\<lambda>x. x @ ''&'') xs) = join ''&'' xs @ ''&''"
  by (induction xs rule: induct_list012) auto

lemma to_query_str_join:
  assumes "ps \<noteq> []"
  shows "to_query_str ps = ''?'' @ join ''&'' (map pair_str ps)"
proof -
  have "concat (map (\<lambda>p. pair_str p @ ''&'') ps)
          = concat (map (\<lambda>x. x @ ''&'') (map pair_str ps))"
    by (simp add: comp_def)
  also have "\<dots> = join ''&'' (map pair_str ps) @ ''&''"
    using assms by (intro concat_amp_join) simp
  finally have "query_loop ''?'' ps = (''?'' @ join ''&'' (map pair_str ps)) @ ''&''"
    by (simp add: query_loop_append)
  then have "butlast (query_loop ''?'' ps) = ''?'' @ join ''&'' (map pair_str ps)"
    by (simp only: butlast_snoc)
  with assms show ?thesis
    by (simp add: to_query_str_def)
qed

lemma join_append:
  "xs \<noteq> [] \<Longrightarrow> ys \<noteq> [] \<Longrightarrow> join sep (xs @ ys) = join sep xs @ sep @ join sep ys"
  by (induction xs rule: induct_list012) (auto simp: neq_Nil_conv)

lemma str_nat_small: "n < 10 \<Longrightarrow> str_nat n = [digit_char n]"
  by (simp add: str_nat.simps)

lemma str_nat_nonempty: "str_nat n \<noteq> []"
  by (subst str_nat.simps) simp

lemma digit_char_is_digit: "d < 10 \<Longrightarrow> is_digit (digit_char d)"
  unfolding is_digit_def digit_char_def by (rule nth_mem) simp

lemma str_nat_digits: "list_all is_digit (str_nat n)"
proof (induction n rule: str_nat.induct)
  case (1 n)
  show ?case
  proof (cases "n < 10")
    case True
    then show ?thesis
      by (simp add: str_nat_small digit_char_is_digit)
  next
    case False
    have "is_digit (digit_char (n mod 10))"
      by (rule digit_char_is_digit) simp
    moreover have "list_all is_digit (str_nat (n div 10))"
      using False by (rule "1.IH")
    ultimately show ?thesis
      using False by (subst str_nat.simps) simp
  qed
qed


lemma str_int_chars: "list_all is_int_char (str_int i)"
proof -
  have "list_all is_int_char (str_nat n)" for n
    using str_nat_digits [of n] by (simp add: list_all_iff is_int_char_def)
  then show ?thesis
    by (simp add: str_int_def is_int_char_def)
qed

lemma str_int_not_true: "str_int i \<noteq> ''true''"
proof
  assume "str_int i = ''true''"
  with str_int_chars [of i] have "list_all is_int_char ''true''"
    by simp
  then show False
    by (simp add: is_int_char_def is_digit_def)
qed

lemma str_int_not_false: "str_int i \<noteq> ''false''"
proof
  assume "str_int i = ''false''"
  with str_int_chars [of i] have "list_all is_int_char ''false''"
    by simp
  then show False
    by (simp add: is_int_char_def is_digit_def)
qed

subsection \<open>The claims about \<^verbatim>\<open>to_query_str\<close>\<close>

text \<open>
  C4. \<^verbatim>\<open>to_query_str\<close> of the empty mapping is the empty string. Of a non-empty
  mapping it is \<^verbatim>\<open>?\<close> followed by the pairs \<^verbatim>\<open>key=value\<close>, in the iteration order of
  the mapping, joined with \<^verbatim>\<open>&\<close>: the separator stands between pairs only, so none
  trails. The mapping \<^verbatim>\<open>{"a": 1, "b": True, "c": [1,2,3]}\<close> gives
  \<^verbatim>\<open>?a=1&b=true&c=1,2,3\<close>.
\<close>

theorem to_query_str_format:
  "to_query_str [] = ''''
   \<and> (ps \<noteq> [] \<longrightarrow> to_query_str ps = ''?'' @ join ''&'' (map pair_str ps))
   \<and> to_query_str [(''a'', Scalar (SInt 1)), (''b'', Scalar (SBool True)),
                     (''c'', PList [SInt 1, SInt 2, SInt 3])] = ''?a=1&b=true&c=1,2,3''"
proof (intro conjI impI)
  show "to_query_str [] = ''''"
    by (simp add: to_query_str_def)
  show "to_query_str ps = ''?'' @ join ''&'' (map pair_str ps)" if "ps \<noteq> []"
    using that by (rule to_query_str_join)
  show "to_query_str [(''a'', Scalar (SInt 1)), (''b'', Scalar (SBool True)),
                      (''c'', PList [SInt 1, SInt 2, SInt 3])] = ''?a=1&b=true&c=1,2,3''"
    by (simp add: to_query_str_def str_int_def str_nat_small digit_char_def)
qed

theorem to_query_str_format_witness:
  "[(''x'', Scalar (SStr ''y'')), (''n'', Scalar SNone)] \<noteq> []
   \<and> to_query_str [(''x'', Scalar (SStr ''y'')), (''n'', Scalar SNone)] = ''?x=y&n=None''"
  using to_query_str_format [of "[(''x'', Scalar (SStr ''y'')), (''n'', Scalar SNone)]"]
  by (simp add: pair_str_def)



text \<open>
  C10. Booleans are recognised by identity. In every mapping an integer value 1 renders
  as \<^verbatim>\<open>key=1\<close> and an integer value 0 as \<^verbatim>\<open>key=0\<close>; no integer renders as
  \<^verbatim>\<open>true\<close> or \<^verbatim>\<open>false\<close>; the two booleans render as \<^verbatim>\<open>true\<close> and \<^verbatim>\<open>false\<close>.
\<close>

theorem to_query_str_bool_identity:
  "to_query_str (ps @ (k, Scalar (SInt 1)) # qs)
     = ''?'' @ join ''&'' (map pair_str ps @ (k @ ''=1'') # map pair_str qs)
   \<and> to_query_str (ps @ (k, Scalar (SInt 0)) # qs)
     = ''?'' @ join ''&'' (map pair_str ps @ (k @ ''=0'') # map pair_str qs)
   \<and> value_transform (Scalar (SInt i)) \<noteq> ''true''
   \<and> value_transform (Scalar (SInt i)) \<noteq> ''false''
   \<and> to_query_str [(k, Scalar (SBool True))] = ''?'' @ k @ ''=true''
   \<and> to_query_str [(k, Scalar (SBool False))] = ''?'' @ k @ ''=false''"
proof -
  have one: "pair_str (k, Scalar (SInt 1)) = k @ ''=1''"
    by (simp add: pair_str_def str_int_def str_nat_small digit_char_def)
  have zero: "pair_str (k, Scalar (SInt 0)) = k @ ''=0''"
    by (simp add: pair_str_def str_int_def str_nat_small digit_char_def)
  have a: "to_query_str (ps @ (k, Scalar (SInt 1)) # qs)
             = ''?'' @ join ''&'' (map pair_str ps @ (k @ ''=1'') # map pair_str qs)"
    using to_query_str_join [of "ps @ (k, Scalar (SInt 1)) # qs"] by (simp add: one)
  have b: "to_query_str (ps @ (k, Scalar (SInt 0)) # qs)
             = ''?'' @ join ''&'' (map pair_str ps @ (k @ ''=0'') # map pair_str qs)"
    using to_query_str_join [of "ps @ (k, Scalar (SInt 0)) # qs"] by (simp add: zero)
  have c: "value_transform (Scalar (SInt i)) \<noteq> ''true''"
    by (simp add: str_int_not_true)
  have d: "value_transform (Scalar (SInt i)) \<noteq> ''false''"
    by (simp add: str_int_not_false)
  have e: "to_query_str [(k, Scalar (SBool True))] = ''?'' @ k @ ''=true''"
    using to_query_str_join [of "[(k, Scalar (SBool True))]"] by (simp add: pair_str_def)
  have f: "to_query_str [(k, Scalar (SBool False))] = ''?'' @ k @ ''=false''"
    using to_query_str_join [of "[(k, Scalar (SBool False))]"] by (simp add: pair_str_def)
  from a b c d e f show ?thesis
    by (intro conjI)
qed

lemma encode_utf8_ok:
  "list_all (\<lambda>c. \<not> is_surrogate c) s \<Longrightarrow> encode_utf8 s = Inr (concat (map utf8_char s))"
  by (induction s) simp_all

lemma always_safe_ascii: "list_all (\<lambda>b. b < 128) always_safe"
  by (simp add: always_safe_def ascii_def)

lemma safe_bytes_ascii:
  assumes "b \<in> set (always_safe @ filter (\<lambda>c. c < 128) safe)"
  shows "b < 128"
  using assms always_safe_ascii by (auto simp: list_all_iff)

lemma decode_utf8_ascii:
  "list_all (\<lambda>b. b < 128) bs \<Longrightarrow> decode_utf8 e bs = Inr bs"
  by (induction bs) (simp_all add: emit_def)

lemma rstrip_empty_iff: "rstrip bs cs = [] \<longleftrightarrow> list_all (\<lambda>b. b \<in> set cs) bs"
  by (simp add: rstrip_def dropWhile_eq_Nil_conv list_all_iff)

lemma concat_quoter_safe:
  "list_all (\<lambda>b. b \<in> set (always_safe @ safe)) bs \<Longrightarrow> concat (map (quoter safe) bs) = bs"
  by (induction bs) (simp_all add: quoter_def)

lemma quote_from_bytes_map:
  "quote_from_bytes bs safe = Inr (concat (map (quoter (filter (\<lambda>c. c < 128) safe)) bs))"
proof (cases "bs = []")
  case True
  then show ?thesis by (simp add: quote_from_bytes_def)
next
  case False
  let ?safe = "filter (\<lambda>c. c < 128) safe"
  show ?thesis
  proof (cases "rstrip bs (always_safe @ ?safe) = []")
    case True
    then have all: "list_all (\<lambda>b. b \<in> set (always_safe @ ?safe)) bs"
      by (simp only: rstrip_empty_iff)
    have "list_all (\<lambda>b. b < 128) bs"
      unfolding list_all_iff
    proof
      fix b
      assume "b \<in> set bs"
      with all have "b \<in> set (always_safe @ ?safe)"
        unfolding list_all_iff by blast
      then show "b < 128"
        by (rule safe_bytes_ascii)
    qed
    then have "decode_utf8 Strict bs = Inr bs"
      by (rule decode_utf8_ascii)
    moreover have "concat (map (quoter ?safe) bs) = bs"
      using all by (rule concat_quoter_safe)
    ultimately show ?thesis
      using True False by (simp add: quote_from_bytes_def)
  next
    case nonempty: False
    with False show ?thesis
      by (simp add: quote_from_bytes_def)
  qed
qed

lemma utf8_char_ascii: "c < 128 \<Longrightarrow> utf8_char c = [c]"
  by (simp add: utf8_char_def)

lemma utf8_char_high: "\<not> c < 128 \<Longrightarrow> list_all (\<lambda>b. \<not> b < 128) (utf8_char c)"
  by (simp add: utf8_char_def)

lemma safe_set_ascii: "filter (\<lambda>c. c < 128) (ascii ''/:,=?&-_'') = ascii ''/:,=?&-_''"
  by (simp add: ascii_def)

lemma stays_unescaped_iff:
  "stays_unescaped c \<longleftrightarrow> c \<in> set (always_safe @ ascii ''/:,=?&-_'')"
  unfolding stays_unescaped_def by auto

lemma stays_unescaped_ascii: "stays_unescaped c \<Longrightarrow> c < 128"
  using safe_bytes_ascii [of c "ascii ''/:,=?&-_''"]
  unfolding stays_unescaped_iff safe_set_ascii .

lemma concat_quoter_high:
  "list_all (\<lambda>b. \<not> b < 128) bs \<Longrightarrow>
   concat (map (quoter (ascii ''/:,=?&-_'')) bs)
     = concat (map (\<lambda>b. ascii (CHR ''%'' # fmt_02X b)) bs)"
proof (induction bs)
  case Nil
  then show ?case by simp
next
  case (Cons b bs)
  then have "\<not> b < 128" by simp
  then have "\<not> stays_unescaped b"
    using stays_unescaped_ascii by blast
  then have "quoter (ascii ''/:,=?&-_'') b = ascii (CHR ''%'' # fmt_02X b)"
    unfolding stays_unescaped_iff quoter_def by simp
  with Cons show ?case by simp
qed

lemma quoter_utf8_char:
  "concat (map (quoter (ascii ''/:,=?&-_'')) (utf8_char c)) = escape_char c"
proof (cases "c < 128")
  case True
  then show ?thesis
    unfolding escape_char_def stays_unescaped_iff
    by (simp add: utf8_char_ascii quoter_def)
next
  case False
  then have "\<not> stays_unescaped c"
    using stays_unescaped_ascii by blast
  moreover have "list_all (\<lambda>b. \<not> b < 128) (utf8_char c)"
    using False by (rule utf8_char_high)
  ultimately show ?thesis
    by (simp add: escape_char_def concat_quoter_high)
qed

lemma percent_escape_concat:
  assumes "list_all (\<lambda>c. \<not> is_surrogate c) url"
  shows "percent_escape url = Inr (concat (map escape_char url))"
proof -
  have "concat (map (quoter (ascii ''/:,=?&-_'')) (concat (map utf8_char s)))
          = concat (map escape_char s)" for s
    by (induction s) (simp_all add: quoter_utf8_char)
  then show ?thesis
    using assms
    by (simp add: percent_escape_def quote_def encode_utf8_ok quote_from_bytes_map safe_set_ascii)
qed

lemma hex_nat_small: "n < 16 \<Longrightarrow> hex_nat n = [hex_digit n]"
  by (simp add: hex_nat.simps)

lemma fmt_02X_byte: "n < 256 \<Longrightarrow> fmt_02X n = [hex_digit (n div 16), hex_digit (n mod 16)]"
proof (cases "n < 16")
  case True
  then show ?thesis
    by (simp add: fmt_02X_def hex_nat_small hex_digit_def)
next
  case False
  assume "n < 256"
  then have "n div 16 < 16" by simp
  then have "hex_nat (n div 16) = [hex_digit (n div 16)]"
    by (rule hex_nat_small)
  with False have "hex_nat n = [hex_digit (n div 16), hex_digit (n mod 16)]"
    by (subst hex_nat.simps) simp
  then show ?thesis
    by (simp add: fmt_02X_def)
qed

lemma ex_a: "percent_escape (ascii ''/foo bar:baz'') = Inr (ascii ''/foo%20bar:baz'')"
  by (simp add: percent_escape_concat is_surrogate_def ascii_def escape_char_def
        stays_unescaped_def always_safe_def fmt_02X_byte hex_digit_def utf8_char_def)
























lemma split_on_nonempty: "split_on sep s \<noteq> []"
  by (induction s) (simp_all split: list.split)









lemma hex_digit_upper: "d < 16 \<Longrightarrow> is_hex_upper (hex_digit d)"
  unfolding is_hex_upper_def hex_digit_def by (rule nth_mem) simp

lemma hex_nat_upper: "list_all is_hex_upper (hex_nat n)"
proof (induction n rule: hex_nat.induct)
  case (1 n)
  show ?case
  proof (cases "n < 16")
    case True
    then show ?thesis
      by (simp add: hex_nat_small hex_digit_upper)
  next
    case False
    have "is_hex_upper (hex_digit (n mod 16))"
      by (rule hex_digit_upper) simp
    moreover have "list_all is_hex_upper (hex_nat (n div 16))"
      using False by (rule "1.IH")
    ultimately show ?thesis
      using False by (subst hex_nat.simps) simp
  qed
qed

lemma fmt_02X_upper: "list_all is_hex_upper (fmt_02X n)"
proof -
  have "is_hex_upper CHR ''0''"
    by (simp add: is_hex_upper_def)
  then have "list_all is_hex_upper (replicate k CHR ''0'')" for k
    by (simp add: list_all_iff)
  then show ?thesis
    using hex_nat_upper [of n] by (simp add: fmt_02X_def Let_def)
qed

lemma plus_not_hex: "is_hex_upper c \<Longrightarrow> (of_char c :: nat) \<noteq> of_char CHR ''+''"
  by (auto simp: is_hex_upper_def)

lemma plus_not_in_hex: "list_all is_hex_upper s \<Longrightarrow> of_char CHR ''+'' \<notin> set (ascii s)"
proof (induction s)
  case Nil
  then show ?case by (simp add: ascii_def)
next
  case (Cons c s)
  then have "(of_char c :: nat) \<noteq> of_char CHR ''+''"
    using plus_not_hex [of c] by simp
  with Cons show ?case
    by (simp add: ascii_def)
qed

lemma plus_not_in_pct: "of_char CHR ''+'' \<notin> set (ascii (CHR ''%'' # fmt_02X b))"
  using plus_not_in_hex [OF fmt_02X_upper, of b] by (simp add: ascii_def)

lemma plus_escaped: "\<not> stays_unescaped (of_char CHR ''+'')"
  by (simp add: stays_unescaped_def always_safe_def ascii_def)

lemma plus_not_in_escape_char: "of_char CHR ''+'' \<notin> set (escape_char c)"
proof (cases "stays_unescaped c")
  case True
  then have "c \<noteq> of_char CHR ''+''"
    using plus_escaped by blast
  with True show ?thesis
    by (simp add: escape_char_def)
next
  case False
  have "of_char CHR ''+'' \<notin> set (concat (map (\<lambda>b. ascii (CHR ''%'' # fmt_02X b)) bs))" for bs
    using plus_not_in_pct by (induction bs) simp_all
  with False show ?thesis
    by (simp add: escape_char_def)
qed

lemma encode_utf8_fail:
  "\<not> list_all (\<lambda>c. \<not> is_surrogate c) s \<Longrightarrow> encode_utf8 s = Inl UnicodeEncodeError"
proof (induction s)
  case Nil
  then show ?case by simp
next
  case (Cons c cs)
  then show ?case
    by (cases "list_all (\<lambda>c. \<not> is_surrogate c) cs") (simp_all add: encode_utf8_ok)
qed

lemma percent_escape_result:
  assumes "percent_escape url = Inr r"
  shows "r = concat (map escape_char url)"
proof (cases "list_all (\<lambda>c. \<not> is_surrogate c) url")
  case True
  with assms show ?thesis
    by (simp add: percent_escape_concat)
next
  case False
  then have "url \<noteq> []" by auto
  with False assms show ?thesis
    by (simp add: percent_escape_def quote_def encode_utf8_fail)
qed

lemma percent_escape_no_plus:
  assumes "percent_escape url = Inr r"
  shows "of_char CHR ''+'' \<notin> set r"
proof -
  have "of_char CHR ''+'' \<notin> set (concat (map escape_char s))" for s
    using plus_not_in_escape_char by (induction s) simp_all
  then show ?thesis
    using percent_escape_result [OF assms] by simp
qed

lemmas escape_eval =
  is_surrogate_def ascii_def escape_char_def stays_unescaped_def always_safe_def
  fmt_02X_byte hex_digit_def utf8_char_def

lemmas unescape_eval =
  percent_unescape_def unquote_plus_def replace_plus_def unquote_def ascii_def
  unquote_impl_def is_surrogate_def utf8_char_def unquote_item_def hex_value_def
  emit_def is_continuation_def

subsection \<open>The claims about \<^verbatim>\<open>percent_escape\<close> and \<^verbatim>\<open>percent_unescape\<close>\<close>

text \<open>
  C6. For every input string that UTF-8 can encode (no lone surrogate code point),
  \<^verbatim>\<open>percent_escape\<close> returns the concatenation, character by character, of: the
  character itself when it is one of \<^verbatim>\<open>/ : , = ? & - _\<close> or an unreserved character
  (letters, digits, \<^verbatim>\<open>_ . - ~\<close>), and otherwise \<^verbatim>\<open>%XX\<close> in upper-case hexadecimal for each
  byte of its UTF-8 encoding. Each character of the safe set alone is returned as it
  is, and \<^verbatim>\<open>percent_escape("/foo bar:baz")\<close> is \<^verbatim>\<open>/foo%20bar:baz\<close>.
\<close>

theorem percent_escape_safe_set:
  "(list_all (\<lambda>c. \<not> is_surrogate c) url
      \<longrightarrow> percent_escape url = Inr (concat (map escape_char url)))
   \<and> list_all (\<lambda>c. percent_escape [c] = Inr [c]) (ascii ''/:,=?&-_'')
   \<and> percent_escape (ascii ''/foo bar:baz'') = Inr (ascii ''/foo%20bar:baz'')"
proof (intro conjI impI)
  show "percent_escape url = Inr (concat (map escape_char url))"
    if "list_all (\<lambda>c. \<not> is_surrogate c) url"
    using that by (rule percent_escape_concat)
  show "list_all (\<lambda>c. percent_escape [c] = Inr [c]) (ascii ''/:,=?&-_'')"
    by (simp add: percent_escape_concat escape_eval)
  show "percent_escape (ascii ''/foo bar:baz'') = Inr (ascii ''/foo%20bar:baz'')"
    by (simp add: percent_escape_concat escape_eval)
qed

theorem percent_escape_safe_set_witness:
  "list_all (\<lambda>c. \<not> is_surrogate c) [0x20AC, 0x7E, 0x22]
   \<and> percent_escape [0x20AC, 0x7E, 0x22] = Inr (ascii ''%E2%82%AC~%22'')"
  using percent_escape_safe_set [of "[0x20AC, 0x7E, 0x22]"]
  by (simp add: escape_eval)



text \<open>
  C9. The two functions are not inverses of each other: there is an input that
  unescaping and then escaping does not give back. \<^verbatim>\<open>percent_unescape\<close> turns \<^verbatim>\<open>+\<close> into a
  space, \<^verbatim>\<open>percent_escape\<close> turns a space into \<^verbatim>\<open>%20\<close> and a \<^verbatim>\<open>+\<close> into \<^verbatim>\<open>%2B\<close>, and
  no result of \<^verbatim>\<open>percent_escape\<close> holds a \<^verbatim>\<open>+\<close>.
\<close>

theorem percent_escape_unescape_asymmetry:
  "(\<exists>s t. percent_unescape s = Inr t \<and> percent_escape t \<noteq> Inr s)
   \<and> percent_unescape (ascii ''+'') = Inr (ascii '' '')
   \<and> percent_escape (ascii '' '') = Inr (ascii ''%20'')
   \<and> percent_escape (ascii ''+'') = Inr (ascii ''%2B'')
   \<and> (percent_escape url = Inr r \<longrightarrow> of_char CHR ''+'' \<notin> set r)"
proof -
  have a: "percent_unescape (ascii ''+'') = Inr (ascii '' '')"
    by (simp add: unescape_eval)
  have b: "percent_escape (ascii '' '') = Inr (ascii ''%20'')"
    by (simp add: percent_escape_concat escape_eval)
  have c: "percent_escape (ascii ''+'') = Inr (ascii ''%2B'')"
    by (simp add: percent_escape_concat escape_eval)
  have "percent_escape (ascii '' '') \<noteq> Inr (ascii ''+'')"
    unfolding b by (simp add: ascii_def)
  with a have d: "\<exists>s t. percent_unescape s = Inr t \<and> percent_escape t \<noteq> Inr s"
    by blast
  have e: "percent_escape url = Inr r \<longrightarrow> of_char CHR ''+'' \<notin> set r"
    using percent_escape_no_plus by blast
  from a b c d e show ?thesis
    by (intro conjI)
qed

theorem percent_escape_unescape_asymmetry_witness:
  "percent_escape (ascii ''a+b'') = Inr (ascii ''a%2Bb'')
   \<and> of_char CHR ''+'' \<notin> set (ascii ''a%2Bb'')"
proof -
  have "percent_escape (ascii ''a+b'') = Inr (ascii ''a%2Bb'')"
    by (simp add: percent_escape_concat escape_eval)
  then show ?thesis
    using percent_escape_unescape_asymmetry [of "ascii ''a+b''" "ascii ''a%2Bb''"]
    by simp
qed

lemma default_filters_resolve:
  "search_filters default_filters Default message DeprecatedWarning module lineno = Default"
  by (simp add: default_filters_def issubclass_def)

lemma warn_explicit_shown:
  assumes "lets_through st message filename lineno"
  shows "warn_explicit message DeprecatedWarning filename lineno st
           = Inr (st\<lparr>shown := shown st @ [\<lparr>w_message = message, w_category = DeprecatedWarning,
                                              w_filename = filename, w_lineno = lineno\<rparr>]\<rparr>)"
  using assms by (auto simp: lets_through_def warn_explicit_def Let_def)

subsection \<open>The claim about \<^verbatim>\<open>deprecated\<close>\<close>

text \<open>
  C8. In every state of the warning filters that lets a \<^verbatim>\<open>DeprecatedWarning\<close> through,
  a call of the wrapper hands exactly one warning to \<^verbatim>\<open>showwarning\<close>, of the category
  \<^verbatim>\<open>DeprecatedWarning\<close>, with the message
  \<^verbatim>\<open>Call to deprecated function <name>(...). <instructions>\<close> and the caller's file and
  line, and then is the call of the function on the same arguments: it returns what
  the function returns, so a function of its arguments alone gives the same value. The
  filters installed by default let the warning through, whatever the message, the file
  and the line, and whatever was shown before: the category is none of the built-in
  ones and does not derive from \<^verbatim>\<open>DeprecationWarning\<close>, which they ignore.
\<close>

theorem deprecated_warns_once_and_calls:
  "(lets_through st (deprecated_message (func_name func) instructions) (fst frame) (snd frame)
      \<longrightarrow> deprecated instructions func frame args st
          = func_call func args
              (st\<lparr>shown := shown st @
                 [\<lparr>w_message = ''Call to deprecated function '' @ func_name func
                                  @ ''(...). '' @ instructions,
                   w_category = DeprecatedWarning,
                   w_filename = fst frame, w_lineno = snd frame\<rparr>]\<rparr>))
   \<and> (lets_through st (deprecated_message name instructions) (fst frame) (snd frame)
      \<longrightarrow> fst (deprecated instructions (pure_func name g) frame args st) = Inr (g args))
   \<and> lets_through (default_state\<lparr>shown := log\<rparr>) message filename lineno
   \<and> \<not> issubclass DeprecatedWarning DeprecationWarning
   \<and> DeprecatedWarning \<notin> set [Warning, UserWarning, DeprecationWarning,
        PendingDeprecationWarning, SyntaxWarning, RuntimeWarning, FutureWarning,
        ImportWarning, UnicodeWarning, BytesWarning, ResourceWarning]"
proof (intro conjI impI)
  show "deprecated instructions func frame args st
          = func_call func args
              (st\<lparr>shown := shown st @
                 [\<lparr>w_message = ''Call to deprecated function '' @ func_name func
                                  @ ''(...). '' @ instructions,
                   w_category = DeprecatedWarning,
                   w_filename = fst frame, w_lineno = snd frame\<rparr>]\<rparr>)"
    if "lets_through st (deprecated_message (func_name func) instructions) (fst frame) (snd frame)"
    using warn_explicit_shown [OF that]
    by (simp add: deprecated_def deprecated_message_def)
  show "fst (deprecated instructions (pure_func name g) frame args st) = Inr (g args)"
    if "lets_through st (deprecated_message name instructions) (fst frame) (snd frame)"
    using warn_explicit_shown [OF that]
    by (simp add: deprecated_def pure_func_def)
  show "lets_through (default_state\<lparr>shown := log\<rparr>) message filename lineno"
    by (simp add: lets_through_def default_state_def default_filters_resolve)
  show "\<not> issubclass DeprecatedWarning DeprecationWarning"
    by (simp add: issubclass_def)
  show "DeprecatedWarning \<notin> set [Warning, UserWarning, DeprecationWarning,
        PendingDeprecationWarning, SyntaxWarning, RuntimeWarning, FutureWarning,
        ImportWarning, UnicodeWarning, BytesWarning, ResourceWarning]"
    by simp
qed

theorem deprecated_warns_once_and_calls_witness:
  "lets_through default_state (deprecated_message ''old'' ''Use new.'') ''app.py'' 10
   \<and> deprecated ''Use new.'' (pure_func ''old'' (\<lambda>n::nat. n + 1)) (''app.py'', 10) 41 default_state
       = (Inr 42,
          default_state\<lparr>shown :=
            [\<lparr>w_message = ''Call to deprecated function old(...). Use new.'',
              w_category = DeprecatedWarning, w_filename = ''app.py'', w_lineno = 10\<rparr>]\<rparr>)"
proof -
  let ?f = "pure_func ''old'' (\<lambda>n::nat. n + 1)"
  have through: "lets_through default_state (deprecated_message ''old'' ''Use new.'') ''app.py'' 10"
    by (simp add: lets_through_def default_state_def default_filters_resolve)
  then have "lets_through default_state (deprecated_message (func_name ?f) ''Use new.'')
               (fst (''app.py'', 10::nat)) (snd (''app.py'', 10::nat))"
    by (simp add: pure_func_def)
  with deprecated_warns_once_and_calls [where st = default_state and func = ?f
        and instructions = "''Use new.''" and frame = "(''app.py'', 10)" and args = 41]
  have "deprecated ''Use new.'' ?f (''app.py'', 10) 41 default_state
          = func_call ?f 41
              (default_state\<lparr>shown := shown default_state @
                 [\<lparr>w_message = ''Call to deprecated function '' @ func_name ?f
                                  @ ''(...). '' @ ''Use new.'',
                   w_category = DeprecatedWarning,
                   w_filename = fst (''app.py'', 10::nat),
                   w_lineno = snd (''app.py'', 10::nat)\<rparr>]\<rparr>)"
    by blast
  then have "deprecated ''Use new.'' ?f (''app.py'', 10) 41 default_state
       = (Inr 42,
          default_state\<lparr>shown :=
            [\<lparr>w_message = ''Call to deprecated function old(...). Use new.'',
              w_category = DeprecatedWarning, w_filename = ''app.py'', w_lineno = 10\<rparr>]\<rparr>)"
    by (simp add: pure_func_def default_state_def)
  with through show ?thesis
    by (intro conjI)
qed

section \<open>Properties of the date functions\<close>

lemma str_nat_two: "10 \<le> n \<Longrightarrow> n < 100 \<Longrightarrow> str_nat n = [digit_char (n div 10), digit_char (n mod 10)]"
  by (subst str_nat.simps) (simp add: str_nat_small)

lemma str_nat_three:
  "100 \<le> n \<Longrightarrow> n < 1000 \<Longrightarrow>
   str_nat n = [digit_char (n div 100), digit_char (n div 10 mod 10), digit_char (n mod 10)]"
  by (subst str_nat.simps) (simp add: str_nat_two div_mult2_eq [symmetric])

lemma str_nat_four:
  "1000 \<le> n \<Longrightarrow> n < 10000 \<Longrightarrow>
   str_nat n = [digit_char (n div 1000), digit_char (n div 100 mod 10),
                digit_char (n div 10 mod 10), digit_char (n mod 10)]"
  by (subst str_nat.simps) (simp add: str_nat_three div_mult2_eq [symmetric])

lemma zero_pad_two:
  "n < 100 \<Longrightarrow> zero_pad 2 n = [digit_char (n div 10), digit_char (n mod 10)]"
  by (cases "n < 10") (simp_all add: zero_pad_def str_nat_small str_nat_two digit_char_def)
















lemma dt_to_http_render:
  "dt_to_http dt =
     day_abbr ! weekday dt @ '', '' @ zero_pad 2 (day dt) @ '' ''
     @ month_abbr ! month dt @ '' '' @ str_nat (year dt) @ '' ''
     @ zero_pad 2 (hour dt) @ '':'' @ zero_pad 2 (minute dt) @ '':''
     @ zero_pad 2 (second dt) @ '' GMT''"
  by (simp add: dt_to_http_def strftime_directive_def)










lemma example_text:
  "dt_to_http \<lparr>year = 1994, month = 11, day = 15, hour = 12, minute = 45, second = 26,
               microsecond = 0\<rparr> = ''Tue, 15 Nov 1994 12:45:26 GMT''"
  by (simp add: dt_to_http_render weekday_def ymd2ord_def days_before_year_def
        days_before_month_def DAYS_BEFORE_MONTH_def is_leap_def day_abbr_def month_abbr_def
        zero_pad_two str_nat_four digit_char_def)



















subsection \<open>The claims about the date functions\<close>







end
